theory Spec2Isabelle
  imports Main "HOL-Library.Word"
begin

section \<open>BME69x example glue: interface initialisation and sequential-mode acquisition\<close>

text \<open>
  The development embeds \<^verbatim>\<open>examples/common/common.c\<close> and
  \<^verbatim>\<open>examples/sequential_mode/sequential_mode.c\<close>. Calls that leave the two files
  (the COINES board API, \<^verbatim>\<open>printf\<close>, the sensor library) are recorded as events in
  a trace, in program order; what such a call returns is an input of the model.
\<close>

type_synonym u8 = "8 word"
type_synonym u16 = "16 word"
type_synonym u32 = "32 word"

subsection \<open>Result codes and header constants\<close>

text \<open>
  \<^verbatim>\<open>int8_t rslt\<close>. The \<^verbatim>\<open>switch\<close> of \<^verbatim>\<open>bme69x_check_rslt\<close> tells seven
  macros apart and sends every other value to \<^verbatim>\<open>default\<close>; the macros' numbers are
  declared in a header outside the two files, so the codes are kept symbolic.
  \<open>BME69X_RSLT_OTHER c\<close> is any code \<open>c\<close> that is none of the seven.
\<close>

datatype rslt =
    BME69X_OK
  | BME69X_E_NULL_PTR
  | BME69X_E_COM_FAIL
  | BME69X_E_INVALID_LENGTH
  | BME69X_E_DEV_NOT_FOUND
  | BME69X_E_SELF_TEST
  | BME69X_W_NO_NEW_DATA
  | BME69X_RSLT_OTHER u8

text \<open>
  Constants that \<^verbatim>\<open>common.c\<close> takes from \<^verbatim>\<open>bme69x.h\<close> and \<^verbatim>\<open>coines.h\<close>.
  The headers are not part of the two files, so the values are a parameter of every
  function that uses them.
\<close>

record hdr =
  BME69X_I2C_INTF :: u8
  BME69X_SPI_INTF :: u8
  BME69X_I2C_ADDR_LOW :: u8
  COINES_SHUTTLE_PIN_7 :: u8
  COINES_SUCCESS :: u16

text \<open>\<^verbatim>\<open>#define BME69X_SHUTTLE_ID 0x93\<close> (common.c, line 18).\<close>

definition BME69X_SHUTTLE_ID :: int where
  "BME69X_SHUTTLE_ID = 0x93"

subsection \<open>The device structure and the static address slot\<close>

datatype read_fn = Bme69x_i2c_read | Bme69x_spi_read
datatype write_fn = Bme69x_i2c_write | Bme69x_spi_write
datatype delay_fn = Bme69x_delay_us

text \<open>
  A \<^verbatim>\<open>void *\<close> as the code uses it: the address of the static \<^verbatim>\<open>dev_addr\<close>, or
  some other address.
\<close>

datatype ptr = Addr_dev_addr | Addr_other nat

text \<open>
  The fields of \<^verbatim>\<open>struct bme69x_dev\<close> that the two files touch. \<open>None\<close> is a field
  nobody has assigned yet (\<^verbatim>\<open>struct bme69x_dev bme;\<close> in \<^verbatim>\<open>main\<close> is uninitialised).
\<close>

record bme69x_dev =
  read :: "read_fn option"
  write' :: "write_fn option"
  intf :: "u8 option"
  delay_us :: "delay_fn option"
  intf_ptr :: "ptr option"
  amb_temp :: "u8 option"

subsection \<open>Configuration data of the sensor library\<close>

text \<open>
  \<^verbatim>\<open>struct bme69x_conf\<close>, \<^verbatim>\<open>struct bme69x_heatr_conf\<close> and \<^verbatim>\<open>struct bme69x_data\<close>
  with the fields \<^verbatim>\<open>main\<close> reads or writes. The setting macros
  (\<^verbatim>\<open>BME69X_OS_16X\<close>, \<^verbatim>\<open>BME69X_FILTER_OFF\<close>, ...) are symbolic, as the result codes are.
  \<^verbatim>\<open>struct bme69x_data\<close> is the variant without \<^verbatim>\<open>BME69X_USE_FPU\<close>.
\<close>

datatype oversampling =
  BME69X_OS_NONE | BME69X_OS_1X | BME69X_OS_2X | BME69X_OS_4X | BME69X_OS_8X | BME69X_OS_16X

datatype iir_filter =
    BME69X_FILTER_OFF | BME69X_FILTER_SIZE_1 | BME69X_FILTER_SIZE_3 | BME69X_FILTER_SIZE_7
  | BME69X_FILTER_SIZE_15 | BME69X_FILTER_SIZE_31 | BME69X_FILTER_SIZE_63 | BME69X_FILTER_SIZE_127

datatype data_rate = BME69X_ODR_NONE | BME69X_ODR_STANDBY u8

datatype op_mode =
  BME69X_SLEEP_MODE | BME69X_FORCED_MODE | BME69X_PARALLEL_MODE | BME69X_SEQUENTIAL_MODE

record bme69x_conf =
  os_hum :: oversampling
  os_temp :: oversampling
  os_pres :: oversampling
  filter' :: iir_filter
  odr :: data_rate

record bme69x_heatr_conf =
  enable :: bool
  heatr_temp_prof :: "u16 list"
  heatr_dur_prof :: "u16 list"
  profile_len :: u8

record bme69x_data =
  temperature :: u16
  pressure :: u32
  humidity :: u32
  gas_resistance :: u32
  status :: u8
  gas_index :: u8
  meas_index :: u8

subsection \<open>Events\<close>

text \<open>
  One event per call that leaves the two files. An event of the sensor library carries
  the arguments \<^verbatim>\<open>main\<close> passes and, last, what the call gave back.
\<close>

datatype arg = A_str string | A_rslt rslt | A_int int

datatype coines_call =
    Coines_read_i2c u8 u8 u16
  | Coines_write_i2c u8 u8 "u8 list" u16
  | Coines_read_spi u8 u8 u16
  | Coines_write_spi u8 u8 "u8 list" u16

datatype event =
    Printf string "arg list"
  | Coines_open_comm_intf
  | Coines_get_board_info
  | Coines_set_shuttleboard_vdd_vddio_config int int
  | Coines_delay_msec u32
  | Coines_delay_usec u32
  | Coines_set_pin_config_sdo_out_low
  | Coines_config_i2c_bus
  | Coines_config_spi_bus
  | Coines_get_millis
  | Coines_soft_reset
  | Coines_close_comm_intf
  | Fflush_stdout
  | Bme69x_init rslt
  | Bme69x_get_conf rslt
  | Bme69x_set_conf bme69x_conf rslt
  | Bme69x_set_heatr_conf op_mode bme69x_heatr_conf rslt
  | Bme69x_set_op_mode op_mode rslt
  | Bme69x_get_meas_dur op_mode bme69x_conf u32
  | Bme69x_get_data op_mode rslt u8
  | Undefined_behaviour string

type_synonym handle = nat

text \<open>
  The program state: the file-scope \<^verbatim>\<open>static uint8_t dev_addr\<close>, the device
  structures by address, and the trace of calls made so far (oldest first).
\<close>

record state =
  dev_addr :: u8
  devs :: "handle \<Rightarrow> bme69x_dev"
  trace :: "event list"

definition emit :: "event list \<Rightarrow> state \<Rightarrow> state" where
  "emit es st = st\<lparr>trace := trace st @ es\<rparr>"

definition unassigned_dev :: bme69x_dev where
  "unassigned_dev = \<lparr>read = None, write' = None, intf = None, delay_us = None,
     intf_ptr = None, amb_temp = None\<rparr>"

text \<open>Program start: static storage is zero, no structure is initialised, nothing was called.\<close>

definition start_state :: state where
  "start_state = \<lparr>dev_addr = 0, devs = (\<lambda>_. unassigned_dev), trace = []\<rparr>"

text \<open>A function either returns a value or ends the process through \<^verbatim>\<open>exit\<close>.\<close>

datatype 'a outcome = Returned 'a | Exited int

subsection \<open>Bus wrappers (common.c, lines 30--82)\<close>

text \<open>\<^verbatim>\<open>*(uint8_t*)intf_ptr\<close>: defined for the one address the model knows.\<close>

definition deref_u8 :: "state \<Rightarrow> ptr \<Rightarrow> u8 option" where
  "deref_u8 st p = (case p of Addr_dev_addr \<Rightarrow> Some (dev_addr st) | Addr_other _ \<Rightarrow> None)"

text \<open>
  Each wrapper reads the device address through \<^verbatim>\<open>intf_ptr\<close> and hands it to the
  COINES call together with the register address and \<^verbatim>\<open>(uint16_t)len\<close>. The value
  is the call issued (\<open>None\<close> when the pointer cannot be read); bus 0 is the only bus.
\<close>

definition bme69x_i2c_read :: "u8 \<Rightarrow> u32 \<Rightarrow> ptr \<Rightarrow> state \<Rightarrow> coines_call option" where
  "bme69x_i2c_read reg_addr len p st =
     map_option (\<lambda>device_addr. Coines_read_i2c device_addr reg_addr (ucast len)) (deref_u8 st p)"

definition bme69x_i2c_write :: "u8 \<Rightarrow> u8 list \<Rightarrow> u32 \<Rightarrow> ptr \<Rightarrow> state \<Rightarrow> coines_call option" where
  "bme69x_i2c_write reg_addr reg_data len p st =
     map_option (\<lambda>device_addr. Coines_write_i2c device_addr reg_addr reg_data (ucast len))
       (deref_u8 st p)"

definition bme69x_spi_read :: "u8 \<Rightarrow> u32 \<Rightarrow> ptr \<Rightarrow> state \<Rightarrow> coines_call option" where
  "bme69x_spi_read reg_addr len p st =
     map_option (\<lambda>device_addr. Coines_read_spi device_addr reg_addr (ucast len)) (deref_u8 st p)"

definition bme69x_spi_write :: "u8 \<Rightarrow> u8 list \<Rightarrow> u32 \<Rightarrow> ptr \<Rightarrow> state \<Rightarrow> coines_call option" where
  "bme69x_spi_write reg_addr reg_data len p st =
     map_option (\<lambda>device_addr. Coines_write_spi device_addr reg_addr reg_data (ucast len))
       (deref_u8 st p)"

text \<open>\<^verbatim>\<open>bme69x_delay_us\<close> ignores the pointer and sleeps through COINES.\<close>

definition bme69x_delay_us :: "u32 \<Rightarrow> ptr option \<Rightarrow> event list" where
  "bme69x_delay_us period p = [Coines_delay_usec period]"

subsection \<open>\<^verbatim>\<open>bme69x_check_rslt\<close> (common.c, lines 84--114)\<close>

text \<open>The line ends \<^verbatim>\<open>\r\n\<close> and \<^verbatim>\<open>\n\<close> of the format strings.\<close>

definition crlf :: string where
  "crlf = [CHR 0x0D, CHR 0x0A]"

definition nl :: string where
  "nl = [CHR 0x0A]"

fun rslt_text :: "rslt \<Rightarrow> string" where
  "rslt_text BME69X_E_NULL_PTR = ''API name [%s]  Error [%d] : Null pointer''"
| "rslt_text BME69X_E_COM_FAIL = ''API name [%s]  Error [%d] : Communication failure''"
| "rslt_text BME69X_E_INVALID_LENGTH = ''API name [%s]  Error [%d] : Incorrect length parameter''"
| "rslt_text BME69X_E_DEV_NOT_FOUND = ''API name [%s]  Error [%d] : Device not found''"
| "rslt_text BME69X_E_SELF_TEST = ''API name [%s]  Error [%d] : Self test error''"
| "rslt_text BME69X_W_NO_NEW_DATA = ''API name [%s]  Warning [%d] : No new data found''"
| "rslt_text _ = ''API name [%s]  Error [%d] : Unknown error code''"

text \<open>The function returns nothing; its whole effect is at most one \<^verbatim>\<open>printf\<close>.\<close>

definition bme69x_check_rslt :: "string \<Rightarrow> rslt \<Rightarrow> event list" where
  "bme69x_check_rslt api_name r =
     (case r of
        BME69X_OK \<Rightarrow> []
      | _ \<Rightarrow> [Printf (rslt_text r @ crlf) [A_str api_name, A_rslt r]])"

subsection \<open>\<^verbatim>\<open>bme69x_interface_init\<close> (common.c, lines 116--193)\<close>

text \<open>
  What the board answers during initialisation: the results of
  \<^verbatim>\<open>coines_open_comm_intf\<close> and \<^verbatim>\<open>coines_get_board_info\<close> (both \<^verbatim>\<open>int16_t\<close>) and the
  shuttle id the latter stores.
\<close>

record board =
  open_result :: u16
  board_info_result :: u16
  shuttle_id :: u16

text \<open>The format strings of lines 126--128 and 142--143.\<close>

definition unable_to_connect :: string where
  "unable_to_connect =
     nl @ '' Unable to connect with Application Board ! '' @ nl
     @ '' 1. Check if the board is connected and powered on. '' @ nl
     @ '' 2. Check if Application Board USB driver is installed. '' @ nl
     @ '' 3. Check if board is in use by another application. (Insufficient permissions to access USB) ''
     @ nl"

definition invalid_shuttle :: string where
  "invalid_shuttle =
     ''! Warning invalid sensor shuttle : 0x%x (Expected : 0x%x) '' @ nl
     @ '' ,This application will not support this sensor '' @ nl"

definition shuttle_check :: "hdr \<Rightarrow> board \<Rightarrow> event list" where
  "shuttle_check H B =
     (if board_info_result B = COINES_SUCCESS H then
        (if uint (shuttle_id B) \<noteq> BME69X_SHUTTLE_ID
         then [Printf invalid_shuttle [A_int (uint (shuttle_id B)), A_int BME69X_SHUTTLE_ID]]
         else [])
      else [])"

text \<open>The bus configuration, lines 152--175: an \<^verbatim>\<open>if\<close>, an \<^verbatim>\<open>else if\<close>, no \<^verbatim>\<open>else\<close>.\<close>

definition bus_config :: "hdr \<Rightarrow> handle \<Rightarrow> u8 \<Rightarrow> state \<Rightarrow> state" where
  "bus_config H p i st =
     (if i = BME69X_I2C_INTF H then
        emit [Printf (''I2C Interface'' @ nl) [], Coines_set_pin_config_sdo_out_low, Coines_config_i2c_bus]
          (st\<lparr>dev_addr := BME69X_I2C_ADDR_LOW H,
              devs := (devs st)(p := (devs st p)\<lparr>read := Some Bme69x_i2c_read,
                        write' := Some Bme69x_i2c_write, intf := Some (BME69X_I2C_INTF H)\<rparr>)\<rparr>)
      else if i = BME69X_SPI_INTF H then
        emit [Printf (''SPI Interface'' @ nl) [], Coines_config_spi_bus]
          (st\<lparr>dev_addr := COINES_SHUTTLE_PIN_7 H,
              devs := (devs st)(p := (devs st p)\<lparr>read := Some Bme69x_spi_read,
                        write' := Some Bme69x_spi_write, intf := Some (BME69X_SPI_INTF H)\<rparr>)\<rparr>)
      else st)"

text \<open>Lines 177--185: power the shuttle and fill the remaining fields.\<close>

definition finish_init :: "handle \<Rightarrow> state \<Rightarrow> state" where
  "finish_init p st =
     (let st1 = emit [Coines_delay_msec 100,
                      Coines_set_shuttleboard_vdd_vddio_config 3300 3300,
                      Coines_delay_msec 100] st
      in st1\<lparr>devs := (devs st1)(p := (devs st1 p)\<lparr>delay_us := Some Bme69x_delay_us,
                 intf_ptr := Some Addr_dev_addr, amb_temp := Some 25\<rparr>)\<rparr>)"

text \<open>
  The handle is \<open>None\<close> for \<^verbatim>\<open>NULL\<close> and \<open>Some p\<close> for the address of a structure.
  \<^verbatim>\<open>exit(result)\<close> ends the process with the (negative) COINES code. The
  \<^verbatim>\<open>setbuf\<close> call of the PC build (lines 134--136) is not part of the trace.
\<close>

definition bme69x_interface_init ::
    "hdr \<Rightarrow> board \<Rightarrow> handle option \<Rightarrow> u8 \<Rightarrow> state \<Rightarrow> rslt outcome \<times> state" where
  "bme69x_interface_init H B bme i st =
     (case bme of
        None \<Rightarrow> (Returned BME69X_E_NULL_PTR, st)
      | Some p \<Rightarrow>
          (let st1 = emit [Coines_open_comm_intf] st in
           if open_result B <s COINES_SUCCESS H then
             (Exited (sint (open_result B)), emit [Printf unable_to_connect []] st1)
           else
             (let st2 = emit (Coines_get_board_info # shuttle_check H B) st1;
                  st3 = emit [Coines_set_shuttleboard_vdd_vddio_config 0 0,
                              Coines_delay_msec 100] st2;
                  st4 = bus_config H p i st3
              in (Returned BME69X_OK, finish_init p st4))))"

text \<open>\<^verbatim>\<open>bme69x_coines_deinit\<close> (common.c, lines 195--206).\<close>

definition bme69x_coines_deinit :: "event list" where
  "bme69x_coines_deinit =
     [Fflush_stdout, Coines_set_shuttleboard_vdd_vddio_config 0 0, Coines_delay_msec 1000,
      Coines_soft_reset, Coines_delay_msec 1000, Coines_close_comm_intf]"

section \<open>The sequential-mode example (sequential_mode.c)\<close>

subsection \<open>Inputs of \<^verbatim>\<open>main\<close>\<close>

text \<open>
  The sensor library (\<^verbatim>\<open>bme69x_init\<close>, \<^verbatim>\<open>bme69x_get_conf\<close>, ...) is linked in from
  outside the two files. What its set-up calls return is an input, one result per call.
\<close>

record lib =
  r_init :: rslt
  r_get_conf :: rslt
  r_set_conf :: rslt
  r_set_heatr_conf :: rslt
  r_set_op_mode :: rslt

text \<open>
  What one pass through the \<^verbatim>\<open>while\<close> body receives: the value of
  \<^verbatim>\<open>bme69x_get_meas_dur\<close>, the clock, and from \<^verbatim>\<open>bme69x_get_data\<close> the result code,
  the value \<^verbatim>\<open>n_fields\<close> holds after the call and the contents of \<^verbatim>\<open>data\<close>.
\<close>

record poll =
  e_meas_dur :: u32
  e_millis :: u32
  e_rslt :: rslt
  e_n_fields :: u8
  e_data :: "bme69x_data list"

subsection \<open>Locals of \<^verbatim>\<open>main\<close>\<close>

text \<open>\<^verbatim>\<open>#define SAMPLE_COUNT UINT8_C(300)\<close>: the constant 300, compared with the
  \<^verbatim>\<open>uint16_t\<close> counter.\<close>

definition SAMPLE_COUNT :: u16 where
  "SAMPLE_COUNT = 300"

definition temp_prof :: "u16 list" where
  "temp_prof = [200, 240, 280, 320, 360, 360, 320, 280, 240, 200]"

definition dur_prof :: "u16 list" where
  "dur_prof = [100, 100, 100, 100, 100, 100, 100, 100, 100, 100]"

text \<open>Lines 58--62: every setting is overwritten after \<^verbatim>\<open>bme69x_get_conf\<close>.\<close>

definition conf :: bme69x_conf where
  "conf = \<lparr>os_hum = BME69X_OS_16X, os_temp = BME69X_OS_2X, os_pres = BME69X_OS_1X,
     filter' = BME69X_FILTER_OFF, odr = BME69X_ODR_NONE\<rparr>"

text \<open>Lines 67--70.\<close>

definition heatr_conf :: bme69x_heatr_conf where
  "heatr_conf = \<lparr>enable = True, heatr_temp_prof = temp_prof, heatr_dur_prof = dur_prof,
     profile_len = 10\<rparr>"

text \<open>The address of the local \<^verbatim>\<open>struct bme69x_dev bme\<close>.\<close>

definition bme :: handle where
  "bme = 0"

subsection \<open>Set-up, lines 47--80\<close>

definition table_header :: string where
  "table_header =
     ''Sample, TimeStamp(ms), Temperature(deg C), Pressure(Pa), Humidity(%%), Gas resistance(ohm), Status, Profile index, Measurement index''
     @ nl"

text \<open>
  After each call its result goes to \<^verbatim>\<open>bme69x_check_rslt\<close> and the next call follows,
  whatever the result was.
\<close>

definition setup_events :: "rslt \<Rightarrow> lib \<Rightarrow> event list" where
  "setup_events r0 L =
     bme69x_check_rslt ''bme69x_interface_init'' r0
     @ Bme69x_init (r_init L) # bme69x_check_rslt ''bme69x_init'' (r_init L)
     @ Bme69x_get_conf (r_get_conf L) # bme69x_check_rslt ''bme69x_get_conf'' (r_get_conf L)
     @ Bme69x_set_conf conf (r_set_conf L) # bme69x_check_rslt ''bme69x_set_conf'' (r_set_conf L)
     @ Bme69x_set_heatr_conf BME69X_SEQUENTIAL_MODE heatr_conf (r_set_heatr_conf L)
       # bme69x_check_rslt ''bme69x_set_heatr_conf'' (r_set_heatr_conf L)
     @ Bme69x_set_op_mode BME69X_SEQUENTIAL_MODE (r_set_op_mode L)
       # bme69x_check_rslt ''bme69x_set_op_mode'' (r_set_op_mode L)
     @ [Printf table_header []]"

text \<open>
  The only way out of the set-up is the \<^verbatim>\<open>exit\<close> inside
  \<^verbatim>\<open>bme69x_interface_init\<close>. The library calls are taken to leave the fields of
  \<^verbatim>\<open>bme\<close> that the example reads later (\<^verbatim>\<open>delay_us\<close>, \<^verbatim>\<open>intf_ptr\<close>) as they are.
\<close>

definition main_setup :: "hdr \<Rightarrow> board \<Rightarrow> lib \<Rightarrow> unit outcome \<times> state" where
  "main_setup H B L =
     (case bme69x_interface_init H B (Some bme) (BME69X_I2C_INTF H) start_state of
        (Exited c, st) \<Rightarrow> (Exited c, st)
      | (Returned r0, st) \<Rightarrow> (Returned (), emit (setup_events r0 L) st))"

subsection \<open>The acquisition loop, lines 81--120\<close>

text \<open>
  Line 84. \<^verbatim>\<open>heatr_dur_prof[0] * 1000\<close> is an \<^verbatim>\<open>int\<close> product of at most
  65535000, added to the \<^verbatim>\<open>uint32_t\<close> duration with 32-bit wrap-around.
\<close>

definition del_period :: "u32 \<Rightarrow> u32" where
  "del_period meas_dur = meas_dur + ucast (heatr_dur_prof heatr_conf ! 0) * 1000"

text \<open>Line 85: the call goes through the function pointer stored in the structure.\<close>

definition call_delay_us :: "bme69x_dev \<Rightarrow> u32 \<Rightarrow> event list" where
  "call_delay_us d period =
     (case delay_us d of
        Some Bme69x_delay_us \<Rightarrow> bme69x_delay_us period (intf_ptr d)
      | None \<Rightarrow> [Undefined_behaviour ''call through unassigned delay_us''])"

definition row_format :: string where
  "row_format = ''%u, %lu, %d, %lu, %lu, %lu, 0x%x, %d, %d'' @ nl"

text \<open>
  Lines 107--116, for field \<open>i\<close> while \<^verbatim>\<open>sample_count\<close> is \<open>sc\<close>. The time stamp is
  computed in \<^verbatim>\<open>unsigned long\<close>, 32 bits on the target. \<^verbatim>\<open>data\<close> has three entries;
  a field index beyond them reads outside the array.
\<close>

definition print_row :: "u16 \<Rightarrow> u32 \<Rightarrow> u32 \<Rightarrow> bme69x_data list \<Rightarrow> nat \<Rightarrow> event" where
  "print_row sc time_ms dp data i =
     (if i < 3 \<and> i < length data then
        (let d = data ! i in
         Printf row_format
           [A_int (uint sc), A_int (uint (time_ms + of_nat i * (dp div 2000))),
            A_int (sint (temperature d)), A_int (uint (pressure d)), A_int (uint (humidity d)),
            A_int (uint (gas_resistance d)), A_int (uint (status d)), A_int (uint (gas_index d)),
            A_int (uint (meas_index d))])
      else Undefined_behaviour ''data[i] outside data[3]'')"

text \<open>
  One pass through the body. \<^verbatim>\<open>sample_count\<close> is incremented once per printed field,
  in \<^verbatim>\<open>uint16_t\<close>.
\<close>

definition iteration_events :: "poll \<Rightarrow> bme69x_dev \<Rightarrow> u16 \<Rightarrow> event list" where
  "iteration_events e d sc =
     Bme69x_get_meas_dur BME69X_SEQUENTIAL_MODE conf (e_meas_dur e)
     # call_delay_us d (del_period (e_meas_dur e))
     @ Coines_get_millis
     # Bme69x_get_data BME69X_SEQUENTIAL_MODE (e_rslt e) (e_n_fields e)
     # bme69x_check_rslt ''bme69x_get_data'' (e_rslt e)
     @ map (\<lambda>i. print_row (sc + of_nat i) (e_millis e) (del_period (e_meas_dur e)) (e_data e) i)
         [0..<unat (e_n_fields e)]"

definition loop_body :: "poll \<Rightarrow> u16 \<times> state \<Rightarrow> u16 \<times> state" where
  "loop_body e s =
     (case s of (sc, st) \<Rightarrow>
        (sc + ucast (e_n_fields e), emit (iteration_events e (devs st bme) sc) st))"

text \<open>
  The \<^verbatim>\<open>while\<close> loop ends only when \<^verbatim>\<open>sample_count\<close> passes \<^verbatim>\<open>SAMPLE_COUNT\<close>, which a
  sensor that never delivers a field never lets happen. \<open>seq_loop n\<close> runs at most \<open>n\<close>
  passes; \<open>env k\<close> is what pass number \<open>k\<close> receives.
\<close>

fun seq_loop :: "nat \<Rightarrow> (nat \<Rightarrow> poll) \<Rightarrow> nat \<Rightarrow> u16 \<times> state \<Rightarrow> u16 \<times> state" where
  "seq_loop 0 env k s = s"
| "seq_loop (Suc n) env k s =
     (if fst s \<le> SAMPLE_COUNT then seq_loop n env (Suc k) (loop_body (env k) s) else s)"

text \<open>
  \<^verbatim>\<open>main\<close> with at most \<open>n\<close> passes of the loop. The outcome is \<open>None\<close> while the loop
  is still running after \<open>n\<close> passes, the exit code of \<^verbatim>\<open>exit\<close>, or the returned 0.
\<close>

definition main :: "nat \<Rightarrow> hdr \<Rightarrow> board \<Rightarrow> lib \<Rightarrow> (nat \<Rightarrow> poll) \<Rightarrow> int outcome option \<times> state" where
  "main n H B L env =
     (case main_setup H B L of
        (Exited c, st) \<Rightarrow> (Some (Exited c), st)
      | (Returned _, st) \<Rightarrow>
          (case seq_loop n env 0 (1, st) of (sc, st') \<Rightarrow>
             if sc \<le> SAMPLE_COUNT then (None, st')
             else (Some (Returned 0), emit bme69x_coines_deinit st')))"

subsection \<open>Predicates on traces\<close>

text \<open>A poll is a call of \<^verbatim>\<open>bme69x_get_data\<close>; a wait is a microsecond sleep.\<close>

fun is_poll :: "event \<Rightarrow> bool" where
  "is_poll (Bme69x_get_data _ _ _) = True"
| "is_poll _ = False"

fun is_wait :: "event \<Rightarrow> bool" where
  "is_wait (Coines_delay_usec _) = True"
| "is_wait _ = False"

text \<open>
  A trace is paced when every poll comes third after a call of \<^verbatim>\<open>bme69x_get_meas_dur\<close>,
  with the sleep computed from its value and the clock read in between, and every wait
  is such a sleep.
\<close>

definition paced :: "event list \<Rightarrow> bool" where
  "paced tr \<longleftrightarrow>
     (\<forall>i<length tr.
        (is_poll (tr ! i) \<longrightarrow>
           3 \<le> i \<and> tr ! (i - 1) = Coines_get_millis
           \<and> (\<exists>md. tr ! (i - 3) = Bme69x_get_meas_dur BME69X_SEQUENTIAL_MODE conf md
                  \<and> tr ! (i - 2) = Coines_delay_usec (del_period md)))
        \<and> (is_wait (tr ! i) \<longrightarrow>
           1 \<le> i
           \<and> (\<exists>md. tr ! (i - 1) = Bme69x_get_meas_dur BME69X_SEQUENTIAL_MODE conf md
                  \<and> tr ! i = Coines_delay_usec (del_period md))))"

definition quiet :: "event list \<Rightarrow> bool" where
  "quiet es \<longleftrightarrow> (\<forall>e\<in>set es. \<not> is_poll e \<and> \<not> is_wait e)"

text \<open>What holds whenever the loop condition is tested.\<close>

definition loop_inv :: "u16 \<times> state \<Rightarrow> bool" where
  "loop_inv s \<longleftrightarrow>
     paced (trace (snd s)) \<and> delay_us (devs (snd s) bme) = Some Bme69x_delay_us"

section \<open>The sensor library, from its specification\<close>

text \<open>
  Modelled from the spec: \<^verbatim>\<open>bme69x_set_heatr_conf\<close> belongs to the sensor library
  (\<^verbatim>\<open>bme69x.c\<close>), of which the two files hold only the call. Section 4.2 of the
  specification gives the contract \<^verbatim>\<open>set_profile(mode, HeaterProfile) -> () |
  Fail(NullHandle | InvalidLength)\<close> and says that it validates \<^verbatim>\<open>1 <= steps <= 10\<close> and
  rejects otherwise with InvalidLength. The number of steps is \<^verbatim>\<open>profile_len\<close>; the
  handle is \<open>None\<close> for \<^verbatim>\<open>NULL\<close>. Only the result code is modelled, not the register
  table written on success.
\<close>

definition bme69x_set_heatr_conf ::
    "op_mode \<Rightarrow> bme69x_heatr_conf \<Rightarrow> bme69x_dev option \<Rightarrow> rslt" where
  "bme69x_set_heatr_conf mode hc dev =
     (case dev of
        None \<Rightarrow> BME69X_E_NULL_PTR
      | Some d \<Rightarrow>
          if 1 \<le> profile_len hc \<and> profile_len hc \<le> 10 then BME69X_OK
          else BME69X_E_INVALID_LENGTH)"

text \<open>
  Modelled from the spec: \<^verbatim>\<open>bme69x_get_meas_dur\<close> belongs to the sensor library as
  well. Section 4.3: the duration is a function of the oversampling settings, built from
  base constants per stage and oversampling level, summed, plus a fixed overhead; section 3
  names the levels OFF, 1x, 2x, 4x, 8x, 16x, and the glossary calls oversampling repeated
  internal sampling at the cost of measurement duration. So a stage at level \<open>k\<close>x costs
  \<open>k\<close> measurement cycles of a fixed length, and an overhead that depends on the mode
  alone is added. Neither constant is given by the specification; both are parameters.
  The result is the \<^verbatim>\<open>uint32_t\<close> that \<^verbatim>\<open>main\<close> adds to.
\<close>

fun os_to_meas_cycles :: "oversampling \<Rightarrow> nat" where
  "os_to_meas_cycles BME69X_OS_NONE = 0"
| "os_to_meas_cycles BME69X_OS_1X = 1"
| "os_to_meas_cycles BME69X_OS_2X = 2"
| "os_to_meas_cycles BME69X_OS_4X = 4"
| "os_to_meas_cycles BME69X_OS_8X = 8"
| "os_to_meas_cycles BME69X_OS_16X = 16"

text \<open>The position of a level in the enumeration OFF, 1x, 2x, 4x, 8x, 16x.\<close>

fun os_level :: "oversampling \<Rightarrow> nat" where
  "os_level BME69X_OS_NONE = 0"
| "os_level BME69X_OS_1X = 1"
| "os_level BME69X_OS_2X = 2"
| "os_level BME69X_OS_4X = 3"
| "os_level BME69X_OS_8X = 4"
| "os_level BME69X_OS_16X = 5"

record timing =
  cycle_us :: u32
  overhead_us :: "op_mode \<Rightarrow> u32"

definition bme69x_get_meas_dur :: "timing \<Rightarrow> op_mode \<Rightarrow> bme69x_conf \<Rightarrow> u32" where
  "bme69x_get_meas_dur T mode c =
     of_nat (os_to_meas_cycles (os_temp c) + os_to_meas_cycles (os_pres c)
             + os_to_meas_cycles (os_hum c)) * cycle_us T
     + overhead_us T mode"

text \<open>The largest duration, 48 cycles and the overhead, does not wrap around in 32 bits.\<close>

definition fits_u32 :: "timing \<Rightarrow> op_mode \<Rightarrow> bool" where
  "fits_u32 T mode \<longleftrightarrow> 48 * unat (cycle_us T) + unat (overhead_us T mode) < 2 ^ 32"

section \<open>Concrete inputs\<close>

text \<open>
  Values for the runs that are evaluated below. The general theorems hold for every
  assignment of the header constants and for every answer of the board and the library.
\<close>

definition sample_hdr :: hdr where
  "sample_hdr = \<lparr>BME69X_I2C_INTF = 1, BME69X_SPI_INTF = 0, BME69X_I2C_ADDR_LOW = 0x76,
     COINES_SHUTTLE_PIN_7 = 9, COINES_SUCCESS = 0\<rparr>"

definition good_board :: board where
  "good_board = \<lparr>open_result = 0, board_info_result = 0, shuttle_id = 0x93\<rparr>"

text \<open>A board that answers, carrying a shuttle other than \<^verbatim>\<open>0x93\<close>.\<close>

definition wrong_shuttle :: board where
  "wrong_shuttle = \<lparr>open_result = 0, board_info_result = 0, shuttle_id = 0x42\<rparr>"

text \<open>No board: \<^verbatim>\<open>coines_open_comm_intf\<close> gives \<open>-1\<close>.\<close>

definition no_board :: board where
  "no_board = \<lparr>open_result = - 1, board_info_result = - 1, shuttle_id = 0\<rparr>"

definition all_ok :: lib where
  "all_ok = \<lparr>r_init = BME69X_OK, r_get_conf = BME69X_OK, r_set_conf = BME69X_OK,
     r_set_heatr_conf = BME69X_OK, r_set_op_mode = BME69X_OK\<rparr>"

text \<open>The library does not find the sensor.\<close>

definition sensor_missing :: lib where
  "sensor_missing = \<lparr>r_init = BME69X_E_DEV_NOT_FOUND, r_get_conf = BME69X_E_COM_FAIL,
     r_set_conf = BME69X_E_COM_FAIL, r_set_heatr_conf = BME69X_E_COM_FAIL,
     r_set_op_mode = BME69X_E_COM_FAIL\<rparr>"

definition one_field :: poll where
  "one_field = \<lparr>e_meas_dur = 42590, e_millis = 1000, e_rslt = BME69X_OK, e_n_fields = 1,
     e_data = [\<lparr>temperature = 2500, pressure = 101325, humidity = 40000,
                gas_resistance = 12000, status = 0xB0, gas_index = 0, meas_index = 0\<rparr>]\<rparr>"

definition no_field :: poll where
  "no_field = \<lparr>e_meas_dur = 42590, e_millis = 1000, e_rslt = BME69X_W_NO_NEW_DATA,
     e_n_fields = 0, e_data = []\<rparr>"

text \<open>The address of a second device structure.\<close>

definition second_handle :: handle where
  "second_handle = 1"

definition sample_timing :: timing where
  "sample_timing = \<lparr>cycle_us = 1963,
     overhead_us = (\<lambda>m. if m = BME69X_PARALLEL_MODE then 4293 else 5293)\<rparr>"

section \<open>Basic facts\<close>

lemma devs_emit [simp]: "devs (emit es st) = devs st"
  by (simp add: emit_def)

lemma dev_addr_emit [simp]: "dev_addr (emit es st) = dev_addr st"
  by (simp add: emit_def)

lemma trace_emit [simp]: "trace (emit es st) = trace st @ es"
  by (simp add: emit_def)

lemma init_returns:
  "\<not> open_result B <s COINES_SUCCESS H \<Longrightarrow>
   bme69x_interface_init H B (Some p) i st =
     (Returned BME69X_OK,
      finish_init p (bus_config H p i
        (emit [Coines_set_shuttleboard_vdd_vddio_config 0 0, Coines_delay_msec 100]
          (emit (Coines_get_board_info # shuttle_check H B) (emit [Coines_open_comm_intf] st)))))"
  by (simp add: bme69x_interface_init_def Let_def)

lemma init_exits:
  "open_result B <s COINES_SUCCESS H \<Longrightarrow>
   bme69x_interface_init H B (Some p) i st =
     (Exited (sint (open_result B)),
      emit [Printf unable_to_connect []] (emit [Coines_open_comm_intf] st))"
  by (simp add: bme69x_interface_init_def Let_def)

lemma finish_init_fields:
  "devs (finish_init p st) p = (devs st p)\<lparr>delay_us := Some Bme69x_delay_us,
      intf_ptr := Some Addr_dev_addr, amb_temp := Some 25\<rparr>"
  "q \<noteq> p \<Longrightarrow> devs (finish_init p st) q = devs st q"
  "dev_addr (finish_init p st) = dev_addr st"
  by (simp_all add: finish_init_def Let_def)

lemma bus_config_other_devs [simp]:
  "q \<noteq> p \<Longrightarrow> devs (bus_config H p i st) q = devs st q"
  by (simp add: bus_config_def)

lemma bus_config_intf_ptr [simp]:
  "intf_ptr (devs (bus_config H p i st) q) = intf_ptr (devs st q)"
  by (simp add: bus_config_def)

lemma bus_config_dev_addr:
  "dev_addr (bus_config H p i st) =
     (if i = BME69X_I2C_INTF H then BME69X_I2C_ADDR_LOW H
      else if i = BME69X_SPI_INTF H then COINES_SHUTTLE_PIN_7 H else dev_addr st)"
  by (simp add: bus_config_def)

lemma init_intf_ptr:
  assumes "bme69x_interface_init H B (Some p) i st = (Returned r, st')"
  shows "intf_ptr (devs st' p) = Some Addr_dev_addr"
    and "q \<noteq> p \<Longrightarrow> intf_ptr (devs st' q) = intf_ptr (devs st q)"
    and "dev_addr st' =
     (if i = BME69X_I2C_INTF H then BME69X_I2C_ADDR_LOW H
      else if i = BME69X_SPI_INTF H then COINES_SHUTTLE_PIN_7 H else dev_addr st)"
proof -
  have ok: "\<not> open_result B <s COINES_SUCCESS H"
    using assms by (auto simp: init_exits)
  have st': "st' = finish_init p (bus_config H p i
        (emit [Coines_set_shuttleboard_vdd_vddio_config 0 0, Coines_delay_msec 100]
          (emit (Coines_get_board_info # shuttle_check H B) (emit [Coines_open_comm_intf] st))))"
    using assms init_returns [OF ok, of p i st] by simp
  show "intf_ptr (devs st' p) = Some Addr_dev_addr"
    by (simp add: st' finish_init_fields)
  show "q \<noteq> p \<Longrightarrow> intf_ptr (devs st' q) = intf_ptr (devs st q)"
    by (simp add: st' finish_init_fields)
  show "dev_addr st' =
     (if i = BME69X_I2C_INTF H then BME69X_I2C_ADDR_LOW H
      else if i = BME69X_SPI_INTF H then COINES_SHUTTLE_PIN_7 H else dev_addr st)"
    by (simp add: st' finish_init_fields bus_config_dev_addr)
qed

lemma main_setup_eq:
  "main_setup H B L =
     (if open_result B <s COINES_SUCCESS H then
        (Exited (sint (open_result B)),
         emit [Printf unable_to_connect []] (emit [Coines_open_comm_intf] start_state))
      else
        (Returned (),
         emit (setup_events BME69X_OK L)
           (snd (bme69x_interface_init H B (Some bme) (BME69X_I2C_INTF H) start_state))))"
  by (simp add: main_setup_def init_exits init_returns)

section \<open>Properties of interface initialisation\<close>

text \<open>
  C8. Called with a \<^verbatim>\<open>NULL\<close> handle, \<^verbatim>\<open>bme69x_interface_init\<close> returns
  \<^verbatim>\<open>BME69X_E_NULL_PTR\<close> and the state is the one it was called in: no call is added to
  the trace (no bus, board or delay operation), and the static \<^verbatim>\<open>dev_addr\<close> and
  every device structure are unchanged.
\<close>

theorem interface_init_null_handle:
  "bme69x_interface_init H B None i st = (Returned BME69X_E_NULL_PTR, st)"
  by (simp add: bme69x_interface_init_def)

text \<open>
  C10. For an interface selector that is neither \<^verbatim>\<open>BME69X_I2C_INTF\<close> nor
  \<^verbatim>\<open>BME69X_SPI_INTF\<close>, and a handle that is not \<^verbatim>\<open>NULL\<close>, the function (once the
  board connection is open, so that it reaches the selector) returns \<^verbatim>\<open>BME69X_OK\<close>,
  sets \<^verbatim>\<open>delay_us\<close>, \<^verbatim>\<open>intf_ptr\<close> and \<^verbatim>\<open>amb_temp\<close> (to 25) and leaves \<^verbatim>\<open>read\<close>,
  \<^verbatim>\<open>write\<close> and \<^verbatim>\<open>intf\<close> as they were; the static \<^verbatim>\<open>dev_addr\<close> is not written
  either. No error reports the invalid choice.
\<close>

theorem interface_init_other_selector:
  assumes "i \<noteq> BME69X_I2C_INTF H" and "i \<noteq> BME69X_SPI_INTF H"
    and "\<not> open_result B <s COINES_SUCCESS H"
  shows "fst (bme69x_interface_init H B (Some p) i st) = Returned BME69X_OK
    \<and> delay_us (devs (snd (bme69x_interface_init H B (Some p) i st)) p) = Some Bme69x_delay_us
    \<and> intf_ptr (devs (snd (bme69x_interface_init H B (Some p) i st)) p) = Some Addr_dev_addr
    \<and> amb_temp (devs (snd (bme69x_interface_init H B (Some p) i st)) p) = Some 25
    \<and> read (devs (snd (bme69x_interface_init H B (Some p) i st)) p) = read (devs st p)
    \<and> write' (devs (snd (bme69x_interface_init H B (Some p) i st)) p) = write' (devs st p)
    \<and> intf (devs (snd (bme69x_interface_init H B (Some p) i st)) p) = intf (devs st p)
    \<and> dev_addr (snd (bme69x_interface_init H B (Some p) i st)) = dev_addr st"
  using assms by (simp add: init_returns finish_init_fields bus_config_def)

text \<open>Selector 2 on a fresh structure: the three bus fields stay unassigned.\<close>

theorem interface_init_other_selector_witness:
  "(2::u8) \<noteq> BME69X_I2C_INTF sample_hdr \<and> (2::u8) \<noteq> BME69X_SPI_INTF sample_hdr
   \<and> \<not> open_result good_board <s COINES_SUCCESS sample_hdr
   \<and> fst (bme69x_interface_init sample_hdr good_board (Some bme) 2 start_state) = Returned BME69X_OK
   \<and> devs (snd (bme69x_interface_init sample_hdr good_board (Some bme) 2 start_state)) bme =
       \<lparr>read = None, write' = None, intf = None, delay_us = Some Bme69x_delay_us,
        intf_ptr = Some Addr_dev_addr, amb_temp = Some 25\<rparr>
   \<and> dev_addr (snd (bme69x_interface_init sample_hdr good_board (Some bme) 2 start_state)) = 0"
proof -
  have h1: "(2::u8) \<noteq> BME69X_I2C_INTF sample_hdr" by (simp add: sample_hdr_def)
  have h2: "(2::u8) \<noteq> BME69X_SPI_INTF sample_hdr" by (simp add: sample_hdr_def)
  have h3: "\<not> open_result good_board <s COINES_SUCCESS sample_hdr"
    by (simp add: sample_hdr_def good_board_def)
  have eq: "d = \<lparr>read = read d, write' = write' d, intf = intf d, delay_us = delay_us d,
      intf_ptr = intf_ptr d, amb_temp = amb_temp d\<rparr>" for d :: bme69x_dev
    by simp
  show ?thesis
    using h1 h2 h3 interface_init_other_selector [OF h1 h2 h3, of bme start_state]
    by (subst eq) (simp add: start_state_def unassigned_dev_def)
qed

text \<open>
  C9. The device address lives in one static slot. Whenever \<^verbatim>\<open>bme69x_interface_init\<close>
  returns, the handle's \<^verbatim>\<open>intf_ptr\<close> is the address of \<^verbatim>\<open>dev_addr\<close>, and a handle
  initialised earlier keeps pointing there; the slot holds what the latest call with a
  valid selector wrote; and each of the four bus wrappers, given that pointer, passes the
  current content of the slot to COINES as the device address. So two handles initialised
  one after the other share one mutable address.
\<close>

theorem shared_device_address:
  assumes first: "bme69x_interface_init H B1 (Some p) i1 st = (Returned r1, st1)"
    and second: "bme69x_interface_init H B2 (Some q) i2 st1 = (Returned r2, st2)"
  shows "intf_ptr (devs st2 p) = Some Addr_dev_addr
    \<and> intf_ptr (devs st2 q) = Some Addr_dev_addr
    \<and> dev_addr st2 =
        (if i2 = BME69X_I2C_INTF H then BME69X_I2C_ADDR_LOW H
         else if i2 = BME69X_SPI_INTF H then COINES_SHUTTLE_PIN_7 H
         else if i1 = BME69X_I2C_INTF H then BME69X_I2C_ADDR_LOW H
         else if i1 = BME69X_SPI_INTF H then COINES_SHUTTLE_PIN_7 H
         else dev_addr st)
    \<and> bme69x_i2c_read reg len Addr_dev_addr st2 =
        Some (Coines_read_i2c (dev_addr st2) reg (ucast len))
    \<and> bme69x_i2c_write reg bytes len Addr_dev_addr st2 =
        Some (Coines_write_i2c (dev_addr st2) reg bytes (ucast len))
    \<and> bme69x_spi_read reg len Addr_dev_addr st2 =
        Some (Coines_read_spi (dev_addr st2) reg (ucast len))
    \<and> bme69x_spi_write reg bytes len Addr_dev_addr st2 =
        Some (Coines_write_spi (dev_addr st2) reg bytes (ucast len))"
proof -
  have p1: "intf_ptr (devs st1 p) = Some Addr_dev_addr"
    by (rule init_intf_ptr(1) [OF first])
  have q2: "intf_ptr (devs st2 q) = Some Addr_dev_addr"
    by (rule init_intf_ptr(1) [OF second])
  have p2: "intf_ptr (devs st2 p) = Some Addr_dev_addr"
  proof (cases "p = q")
    case True
    then show ?thesis using q2 by simp
  next
    case False
    then show ?thesis using init_intf_ptr(2) [OF second, of p] p1 by simp
  qed
  have a: "dev_addr st2 =
        (if i2 = BME69X_I2C_INTF H then BME69X_I2C_ADDR_LOW H
         else if i2 = BME69X_SPI_INTF H then COINES_SHUTTLE_PIN_7 H
         else if i1 = BME69X_I2C_INTF H then BME69X_I2C_ADDR_LOW H
         else if i1 = BME69X_SPI_INTF H then COINES_SHUTTLE_PIN_7 H
         else dev_addr st)"
    by (simp add: init_intf_ptr(3) [OF second] init_intf_ptr(3) [OF first])
  show ?thesis
    using p2 q2 a
    by (simp add: bme69x_i2c_read_def bme69x_i2c_write_def bme69x_spi_read_def
        bme69x_spi_write_def deref_u8_def)
qed

text \<open>
  Handle 0 is set up for I2C, then handle 1 for SPI: an I2C read through the pointer of
  handle 0 now goes to address 9, the SPI chip-select pin, not to \<^verbatim>\<open>0x76\<close>.
\<close>

theorem shared_device_address_witness:
  "let (r1, st1) = bme69x_interface_init sample_hdr good_board (Some bme) 1 start_state;
       (r2, st2) = bme69x_interface_init sample_hdr good_board (Some second_handle) 0 st1
   in r1 = Returned BME69X_OK \<and> r2 = Returned BME69X_OK
      \<and> intf_ptr (devs st2 bme) = Some Addr_dev_addr
      \<and> intf_ptr (devs st2 second_handle) = Some Addr_dev_addr
      \<and> dev_addr st1 = 0x76 \<and> dev_addr st2 = 9
      \<and> bme69x_i2c_read 0xD0 1 Addr_dev_addr st2 = Some (Coines_read_i2c 9 0xD0 1)"
proof -
  obtain st1 where 1: "bme69x_interface_init sample_hdr good_board (Some bme) 1 start_state
      = (Returned BME69X_OK, st1)"
    by (simp add: init_returns sample_hdr_def good_board_def)
  obtain st2 where 2: "bme69x_interface_init sample_hdr good_board (Some second_handle) 0 st1
      = (Returned BME69X_OK, st2)"
    by (simp add: init_returns sample_hdr_def good_board_def)
  have a1: "dev_addr st1 = 0x76"
    using init_intf_ptr(3) [OF 1] by (simp add: sample_hdr_def)
  have a2: "intf_ptr (devs st2 bme) = Some Addr_dev_addr
      \<and> intf_ptr (devs st2 second_handle) = Some Addr_dev_addr \<and> dev_addr st2 = 9
      \<and> bme69x_i2c_read 0xD0 1 Addr_dev_addr st2 = Some (Coines_read_i2c 9 0xD0 1)"
    using shared_device_address [OF 1 2, of "0xD0" 1 "[]"] by (simp add: sample_hdr_def)
  show ?thesis
    using a1 a2 by (simp add: 1 2)
qed

text \<open>
  C3, as stated, fails: with a board that answers but carries another shuttle than
  \<^verbatim>\<open>0x93\<close>, \<^verbatim>\<open>bme69x_interface_init\<close> returns \<^verbatim>\<open>BME69X_OK\<close>, not
  \<^verbatim>\<open>BME69X_E_DEV_NOT_FOUND\<close>; and when the library then reports
  \<^verbatim>\<open>BME69X_E_DEV_NOT_FOUND\<close> and \<^verbatim>\<open>BME69X_E_COM_FAIL\<close>, the set-up of \<^verbatim>\<open>main\<close> still
  runs to its end instead of aborting.
\<close>

theorem shuttle_mismatch_not_reported:
  "fst (bme69x_interface_init sample_hdr wrong_shuttle (Some bme) 1 start_state)
     = Returned BME69X_OK
   \<and> fst (bme69x_interface_init sample_hdr wrong_shuttle (Some bme) 1 start_state)
     \<noteq> Returned BME69X_E_DEV_NOT_FOUND
   \<and> fst (main_setup sample_hdr wrong_shuttle sensor_missing) = Returned ()"
  by (simp add: init_returns main_setup_eq sample_hdr_def wrong_shuttle_def)

text \<open>
  C3, amended. With a handle that is not \<^verbatim>\<open>NULL\<close>, \<^verbatim>\<open>bme69x_interface_init\<close> never
  returns ComFail or DeviceNotFound. When \<^verbatim>\<open>coines_open_comm_intf\<close> gives a value below
  \<^verbatim>\<open>COINES_SUCCESS\<close> the process exits with that value; otherwise the function returns
  \<^verbatim>\<open>BME69X_OK\<close>, also when the board reports a shuttle id other than \<^verbatim>\<open>0x93\<close>, in
  which case a warning is printed. The set-up of \<^verbatim>\<open>main\<close> leaves the process only
  through that exit: whatever the library calls return, it goes on up to
  \<^verbatim>\<open>bme69x_set_op_mode\<close> and enters the loop.
\<close>

theorem interface_init_outcome:
  "fst (bme69x_interface_init H B (Some p) i st) =
     (if open_result B <s COINES_SUCCESS H then Exited (sint (open_result B))
      else Returned BME69X_OK)
   \<and> (\<not> open_result B <s COINES_SUCCESS H \<and> board_info_result B = COINES_SUCCESS H
        \<and> uint (shuttle_id B) \<noteq> BME69X_SHUTTLE_ID \<longrightarrow>
      Printf invalid_shuttle [A_int (uint (shuttle_id B)), A_int BME69X_SHUTTLE_ID]
        \<in> set (trace (snd (bme69x_interface_init H B (Some p) i st))))
   \<and> fst (main_setup H B L) =
     (if open_result B <s COINES_SUCCESS H then Exited (sint (open_result B))
      else Returned ())
   \<and> (\<not> open_result B <s COINES_SUCCESS H \<longrightarrow>
      Bme69x_set_op_mode BME69X_SEQUENTIAL_MODE (r_set_op_mode L)
        \<in> set (trace (snd (main_setup H B L))))"
proof (cases "open_result B <s COINES_SUCCESS H")
  case True
  then show ?thesis by (simp add: init_exits main_setup_def)
next
  case False
  have "trace (bus_config H p i s) = trace s @ drop (length (trace s)) (trace (bus_config H p i s))" for s
    by (simp add: bus_config_def emit_def)
  then have sub: "set (trace s) \<subseteq> set (trace (bus_config H p i s))" for s
    by (metis set_append Un_upper1)
  have fin: "set (trace s) \<subseteq> set (trace (finish_init p s))" for s
    by (auto simp: finish_init_def Let_def emit_def)
  have shut: "board_info_result B = COINES_SUCCESS H \<Longrightarrow> uint (shuttle_id B) \<noteq> BME69X_SHUTTLE_ID \<Longrightarrow>
     Printf invalid_shuttle [A_int (uint (shuttle_id B)), A_int BME69X_SHUTTLE_ID]
        \<in> set (trace (snd (bme69x_interface_init H B (Some p) i st)))"
    apply (simp add: init_returns [OF False])
    apply (rule subsetD [OF fin])
    apply (rule subsetD [OF sub])
    apply (simp add: shuttle_check_def)
    done
  show ?thesis
    using False shut by (simp add: init_returns main_setup_def setup_events_def)
qed

theorem interface_init_outcome_witness:
  "open_result no_board <s COINES_SUCCESS sample_hdr
   \<and> fst (bme69x_interface_init sample_hdr no_board (Some bme) 1 start_state) = Exited (- 1)
   \<and> fst (main_setup sample_hdr no_board sensor_missing) = Exited (- 1)
   \<and> \<not> open_result wrong_shuttle <s COINES_SUCCESS sample_hdr
   \<and> board_info_result wrong_shuttle = COINES_SUCCESS sample_hdr
   \<and> uint (shuttle_id wrong_shuttle) \<noteq> BME69X_SHUTTLE_ID
   \<and> fst (bme69x_interface_init sample_hdr wrong_shuttle (Some bme) 1 start_state)
       = Returned BME69X_OK
   \<and> Printf invalid_shuttle [A_int 0x42, A_int 0x93]
       \<in> set (trace (snd (bme69x_interface_init sample_hdr wrong_shuttle (Some bme) 1
                           start_state)))
   \<and> fst (main_setup sample_hdr wrong_shuttle sensor_missing) = Returned ()
   \<and> Bme69x_set_op_mode BME69X_SEQUENTIAL_MODE BME69X_E_COM_FAIL
       \<in> set (trace (snd (main_setup sample_hdr wrong_shuttle sensor_missing)))"
proof -
  have a: "open_result no_board <s COINES_SUCCESS sample_hdr"
    by (simp add: no_board_def sample_hdr_def)
  have b: "\<not> open_result wrong_shuttle <s COINES_SUCCESS sample_hdr"
    by (simp add: wrong_shuttle_def sample_hdr_def)
  have c: "board_info_result wrong_shuttle = COINES_SUCCESS sample_hdr"
    by (simp add: wrong_shuttle_def sample_hdr_def)
  have d: "uint (shuttle_id wrong_shuttle) \<noteq> BME69X_SHUTTLE_ID"
    by (simp add: wrong_shuttle_def BME69X_SHUTTLE_ID_def)
  have e: "sint (open_result no_board) = - 1"
    by (simp add: no_board_def)
  have f: "uint (shuttle_id wrong_shuttle) = 0x42" "BME69X_SHUTTLE_ID = 0x93"
       "r_set_op_mode sensor_missing = BME69X_E_COM_FAIL"
    by (simp_all add: wrong_shuttle_def BME69X_SHUTTLE_ID_def sensor_missing_def)
  show ?thesis
    using a b c d
      interface_init_outcome [of sample_hdr no_board bme 1 start_state sensor_missing]
      interface_init_outcome [of sample_hdr wrong_shuttle bme 1 start_state sensor_missing]
    by (simp add: e f)
qed

section \<open>The shape of the trace of \<^verbatim>\<open>main\<close>\<close>

lemma paced_Nil: "paced []"
  by (simp add: paced_def)

lemma paced_append_quiet:
  assumes "paced xs" and "quiet ys"
  shows "paced (xs @ ys)"
  unfolding paced_def
proof (intro allI impI)
  fix i assume i: "i < length (xs @ ys)"
  show "(is_poll ((xs @ ys) ! i) \<longrightarrow>
           3 \<le> i \<and> (xs @ ys) ! (i - 1) = Coines_get_millis
           \<and> (\<exists>md. (xs @ ys) ! (i - 3) = Bme69x_get_meas_dur BME69X_SEQUENTIAL_MODE conf md
                  \<and> (xs @ ys) ! (i - 2) = Coines_delay_usec (del_period md)))
        \<and> (is_wait ((xs @ ys) ! i) \<longrightarrow>
           1 \<le> i
           \<and> (\<exists>md. (xs @ ys) ! (i - 1) = Bme69x_get_meas_dur BME69X_SEQUENTIAL_MODE conf md
                  \<and> (xs @ ys) ! i = Coines_delay_usec (del_period md)))"
  proof (cases "i < length xs")
    case True
    then have lt: "i - 1 < length xs" "i - 2 < length xs" "i - 3 < length xs" by auto
    have inst: "(is_poll (xs ! i) \<longrightarrow>
           3 \<le> i \<and> xs ! (i - 1) = Coines_get_millis
           \<and> (\<exists>md. xs ! (i - 3) = Bme69x_get_meas_dur BME69X_SEQUENTIAL_MODE conf md
                  \<and> xs ! (i - 2) = Coines_delay_usec (del_period md)))
        \<and> (is_wait (xs ! i) \<longrightarrow>
           1 \<le> i
           \<and> (\<exists>md. xs ! (i - 1) = Bme69x_get_meas_dur BME69X_SEQUENTIAL_MODE conf md
                  \<and> xs ! i = Coines_delay_usec (del_period md)))"
      using assms(1) True unfolding paced_def by blast
    show ?thesis
      using inst True lt by (simp add: nth_append)
  next
    case False
    then have "(xs @ ys) ! i = ys ! (i - length xs)" "i - length xs < length ys"
      using i by (auto simp: nth_append)
    then have "\<not> is_poll ((xs @ ys) ! i)" "\<not> is_wait ((xs @ ys) ! i)"
      using assms(2) by (auto simp: quiet_def)
    then show ?thesis by simp
  qed
qed

lemma paced_append_block:
  assumes "paced xs"
  shows "paced (xs @ [Bme69x_get_meas_dur BME69X_SEQUENTIAL_MODE conf md,
                     Coines_delay_usec (del_period md), Coines_get_millis,
                     Bme69x_get_data BME69X_SEQUENTIAL_MODE r nf])"
    (is "paced (xs @ ?b)")
  unfolding paced_def
proof (intro allI impI)
  fix i assume i: "i < length (xs @ ?b)"
  let ?tr = "xs @ ?b"
  show "(is_poll (?tr ! i) \<longrightarrow>
           3 \<le> i \<and> ?tr ! (i - 1) = Coines_get_millis
           \<and> (\<exists>md. ?tr ! (i - 3) = Bme69x_get_meas_dur BME69X_SEQUENTIAL_MODE conf md
                  \<and> ?tr ! (i - 2) = Coines_delay_usec (del_period md)))
        \<and> (is_wait (?tr ! i) \<longrightarrow>
           1 \<le> i
           \<and> (\<exists>md. ?tr ! (i - 1) = Bme69x_get_meas_dur BME69X_SEQUENTIAL_MODE conf md
                  \<and> ?tr ! i = Coines_delay_usec (del_period md)))"
  proof (cases "i < length xs")
    case True
    then have lt: "i - 1 < length xs" "i - 2 < length xs" "i - 3 < length xs" by auto
    have inst: "(is_poll (xs ! i) \<longrightarrow>
           3 \<le> i \<and> xs ! (i - 1) = Coines_get_millis
           \<and> (\<exists>md. xs ! (i - 3) = Bme69x_get_meas_dur BME69X_SEQUENTIAL_MODE conf md
                  \<and> xs ! (i - 2) = Coines_delay_usec (del_period md)))
        \<and> (is_wait (xs ! i) \<longrightarrow>
           1 \<le> i
           \<and> (\<exists>md. xs ! (i - 1) = Bme69x_get_meas_dur BME69X_SEQUENTIAL_MODE conf md
                  \<and> xs ! i = Coines_delay_usec (del_period md)))"
      using assms(1) True unfolding paced_def by blast
    show ?thesis
      using inst True lt by (simp add: nth_append)
  next
    case False
    define j where "j = i - length xs"
    have j: "i = length xs + j" "j < 4"
      using i False by (simp_all add: j_def)
    from j(2) consider "j = 0" | "j = 1" | "j = 2" | "j = 3" by linarith
    then show ?thesis
      by cases (simp_all add: j nth_append)
  qed
qed

lemma quiet_Nil [simp]: "quiet []"
  by (simp add: quiet_def)

lemma quiet_append [simp]: "quiet (xs @ ys) \<longleftrightarrow> quiet xs \<and> quiet ys"
  by (auto simp: quiet_def)

lemma quiet_Cons [simp]: "quiet (e # es) \<longleftrightarrow> \<not> is_poll e \<and> \<not> is_wait e \<and> quiet es"
  by (simp add: quiet_def)

lemma quiet_check_rslt [simp]: "quiet (bme69x_check_rslt a r)"
  by (cases r) (simp_all add: bme69x_check_rslt_def)

lemma quiet_rows [simp]: "quiet (map (\<lambda>i. print_row (f i) t dp data i) is)"
  by (induction "is") (simp_all add: print_row_def Let_def)

lemma quiet_setup_events [simp]: "quiet (setup_events r L)"
  by (simp add: setup_events_def)

lemma quiet_deinit [simp]: "quiet bme69x_coines_deinit"
  by (simp add: bme69x_coines_deinit_def)

lemma quiet_shuttle_check [simp]: "quiet (shuttle_check H B)"
  by (simp add: shuttle_check_def)

lemma init_trace_quiet:
  "quiet (trace st) \<Longrightarrow> quiet (trace (snd (bme69x_interface_init H B (Some p) i st)))"
  by (cases "open_result B <s COINES_SUCCESS H")
    (simp_all add: init_exits init_returns finish_init_def bus_config_def Let_def)

lemma paced_quiet: "quiet es \<Longrightarrow> paced es"
  using paced_append_quiet [OF paced_Nil, of es] by simp

lemma iteration_events_split:
  assumes "delay_us d = Some Bme69x_delay_us"
  shows "iteration_events e d sc =
     [Bme69x_get_meas_dur BME69X_SEQUENTIAL_MODE conf (e_meas_dur e),
      Coines_delay_usec (del_period (e_meas_dur e)), Coines_get_millis,
      Bme69x_get_data BME69X_SEQUENTIAL_MODE (e_rslt e) (e_n_fields e)]
     @ (bme69x_check_rslt ''bme69x_get_data'' (e_rslt e)
        @ map (\<lambda>i. print_row (sc + of_nat i) (e_millis e) (del_period (e_meas_dur e)) (e_data e) i)
            [0..<unat (e_n_fields e)])"
  using assms by (simp add: iteration_events_def call_delay_us_def bme69x_delay_us_def)

lemma loop_body_inv: "loop_inv s \<Longrightarrow> loop_inv (loop_body e s)"
proof -
  assume inv: "loop_inv s"
  obtain sc st where s: "s = (sc, st)" by (cases s)
  from inv s have d: "delay_us (devs st bme) = Some Bme69x_delay_us" and p: "paced (trace st)"
    by (simp_all add: loop_inv_def)
  let ?tail = "bme69x_check_rslt ''bme69x_get_data'' (e_rslt e)
        @ map (\<lambda>i. print_row (sc + of_nat i) (e_millis e) (del_period (e_meas_dur e)) (e_data e) i)
            [0..<unat (e_n_fields e)]"
  have "paced ((trace st @ [Bme69x_get_meas_dur BME69X_SEQUENTIAL_MODE conf (e_meas_dur e),
      Coines_delay_usec (del_period (e_meas_dur e)), Coines_get_millis,
      Bme69x_get_data BME69X_SEQUENTIAL_MODE (e_rslt e) (e_n_fields e)]) @ ?tail)"
    by (rule paced_append_quiet [OF paced_append_block [OF p]]) simp
  then have "paced (trace st @ iteration_events e (devs st bme) sc)"
    by (simp add: iteration_events_split [OF d])
  with d show ?thesis
    by (simp add: s loop_body_def loop_inv_def)
qed

lemma seq_loop_inv: "loop_inv s \<Longrightarrow> loop_inv (seq_loop n env k s)"
  by (induction n arbitrary: k s) (simp_all add: loop_body_inv)

lemma setup_inv:
  assumes "main_setup H B L = (Returned u, st)"
  shows "loop_inv (sc, st)"
proof -
  have open_ok: "\<not> open_result B <s COINES_SUCCESS H"
    using assms by (auto simp: main_setup_eq split: if_splits)
  let ?st0 = "snd (bme69x_interface_init H B (Some bme) (BME69X_I2C_INTF H) start_state)"
  have st: "st = emit (setup_events BME69X_OK L) ?st0"
    using assms open_ok by (simp add: main_setup_eq)
  have q: "quiet (trace ?st0)"
    by (rule init_trace_quiet) (simp add: start_state_def)
  have d: "delay_us (devs ?st0 bme) = Some Bme69x_delay_us"
    by (simp add: init_returns [OF open_ok] finish_init_fields)
  show ?thesis
    using q d by (simp add: loop_inv_def st paced_quiet)
qed

lemma main_paced: "paced (trace (snd (main n H B L env)))"
proof (cases "open_result B <s COINES_SUCCESS H")
  case True
  then show ?thesis
    by (simp add: main_def main_setup_eq start_state_def paced_quiet)
next
  case False
  obtain st where st: "main_setup H B L = (Returned (), st)"
    using False by (simp add: main_setup_eq)
  obtain sc st' where l: "seq_loop n env 0 (1, st) = (sc, st')"
    by (cases "seq_loop n env 0 (1, st)")
  have "loop_inv (seq_loop n env 0 (1, st))"
    by (rule seq_loop_inv) (rule setup_inv [OF st])
  then have "paced (trace st')"
    by (simp add: l loop_inv_def)
  then show ?thesis
    by (simp add: main_def st l paced_append_quiet)
qed

lemma first_step_us: "ucast (heatr_dur_prof heatr_conf ! 0) * 1000 = (100000 :: u32)"
  by (simp add: heatr_conf_def dur_prof_def)

text \<open>A run with a board and a library that answer well, cut after one pass of the loop.\<close>

lemma sample_run:
  "trace (snd (main (Suc 0) sample_hdr good_board all_ok (\<lambda>_. one_field))) =
     [Coines_open_comm_intf, Coines_get_board_info,
      Coines_set_shuttleboard_vdd_vddio_config 0 0, Coines_delay_msec 100,
      Printf (''I2C Interface'' @ nl) [], Coines_set_pin_config_sdo_out_low, Coines_config_i2c_bus,
      Coines_delay_msec 100, Coines_set_shuttleboard_vdd_vddio_config 3300 3300,
      Coines_delay_msec 100,
      Bme69x_init BME69X_OK, Bme69x_get_conf BME69X_OK, Bme69x_set_conf conf BME69X_OK,
      Bme69x_set_heatr_conf BME69X_SEQUENTIAL_MODE heatr_conf BME69X_OK,
      Bme69x_set_op_mode BME69X_SEQUENTIAL_MODE BME69X_OK, Printf table_header [],
      Bme69x_get_meas_dur BME69X_SEQUENTIAL_MODE conf 42590, Coines_delay_usec 142590,
      Coines_get_millis, Bme69x_get_data BME69X_SEQUENTIAL_MODE BME69X_OK 1,
      Printf row_format [A_int 1, A_int 1000, A_int 2500, A_int 101325, A_int 40000,
        A_int 12000, A_int 176, A_int 0, A_int 0]]"
  by (simp add: main_def main_setup_eq sample_hdr_def good_board_def init_returns
      finish_init_def bus_config_def shuttle_check_def BME69X_SHUTTLE_ID_def Let_def
      start_state_def setup_events_def all_ok_def bme69x_check_rslt_def one_field_def
      loop_body_def iteration_events_def call_delay_us_def bme69x_delay_us_def
      del_period_def heatr_conf_def dur_prof_def print_row_def SAMPLE_COUNT_def bme_def
      unassigned_dev_def)

section \<open>Properties of the acquisition loop\<close>

text \<open>
  C1. In a run of \<^verbatim>\<open>main\<close> of any length, against any board and library, every
  microsecond sleep is the one of line 85: the call just before it is
  \<^verbatim>\<open>bme69x_get_meas_dur\<close> for the sequential mode and the configuration \<open>conf\<close>, and the
  sleep lasts the value \<open>md\<close> that call returned plus the duration of the first heater
  step times 1000, that is \<open>md + 100000\<close>; the sum is handed to \<^verbatim>\<open>coines_delay_usec\<close>,
  so it is a number of microseconds.
\<close>

theorem wait_is_meas_dur_plus_first_step:
  assumes "i < length (trace (snd (main n H B L env)))"
    and "trace (snd (main n H B L env)) ! i = Coines_delay_usec w"
  shows "1 \<le> i
    \<and> (\<exists>md. trace (snd (main n H B L env)) ! (i - 1)
               = Bme69x_get_meas_dur BME69X_SEQUENTIAL_MODE conf md
          \<and> w = md + ucast (heatr_dur_prof heatr_conf ! 0) * 1000
          \<and> w = md + 100000)"
proof -
  let ?tr = "trace (snd (main n H B L env))"
  have "is_wait (?tr ! i)" using assms(2) by simp
  with main_paced [of n H B L env] assms(1)
  have "1 \<le> i \<and> (\<exists>md. ?tr ! (i - 1) = Bme69x_get_meas_dur BME69X_SEQUENTIAL_MODE conf md
          \<and> ?tr ! i = Coines_delay_usec (del_period md))"
    unfolding paced_def by blast
  then show ?thesis
    using assms(2) by (auto simp: del_period_def first_step_us)
qed

theorem wait_is_meas_dur_plus_first_step_witness:
  "17 < length (trace (snd (main (Suc 0) sample_hdr good_board all_ok (\<lambda>_. one_field))))
   \<and> trace (snd (main (Suc 0) sample_hdr good_board all_ok (\<lambda>_. one_field))) ! 17
       = Coines_delay_usec 142590
   \<and> trace (snd (main (Suc 0) sample_hdr good_board all_ok (\<lambda>_. one_field))) ! 16
       = Bme69x_get_meas_dur BME69X_SEQUENTIAL_MODE conf 42590
   \<and> (142590 :: u32) = 42590 + ucast (heatr_dur_prof heatr_conf ! 0) * 1000"
proof -
  let ?tr = "trace (snd (main (Suc 0) sample_hdr good_board all_ok (\<lambda>_. one_field)))"
  have a: "17 < length ?tr" by (simp add: sample_run)
  have b: "?tr ! 17 = Coines_delay_usec 142590" by (simp add: sample_run)
  have c: "?tr ! 16 = Bme69x_get_meas_dur BME69X_SEQUENTIAL_MODE conf 42590"
    by (simp add: sample_run)
  from wait_is_meas_dur_plus_first_step [OF a b] c show ?thesis
    using a b by auto
qed

text \<open>
  C5. In a run of \<^verbatim>\<open>main\<close> of any length, every call of \<^verbatim>\<open>bme69x_get_data\<close> has
  before it, in this order, the call of \<^verbatim>\<open>bme69x_get_meas_dur\<close>, the sleep of the wait
  computed from its value, and the reading of the clock: no poll is issued without the
  sleep of that pass, and nothing but \<^verbatim>\<open>coines_get_millis\<close> lies between the two.
\<close>

theorem sleep_precedes_poll:
  assumes "i < length (trace (snd (main n H B L env)))"
    and "trace (snd (main n H B L env)) ! i = Bme69x_get_data m r nf"
  shows "3 \<le> i
    \<and> trace (snd (main n H B L env)) ! (i - 1) = Coines_get_millis
    \<and> (\<exists>md. trace (snd (main n H B L env)) ! (i - 3)
               = Bme69x_get_meas_dur BME69X_SEQUENTIAL_MODE conf md
          \<and> trace (snd (main n H B L env)) ! (i - 2) = Coines_delay_usec (del_period md))"
proof -
  let ?tr = "trace (snd (main n H B L env))"
  have "is_poll (?tr ! i)" using assms(2) by simp
  with main_paced [of n H B L env] assms(1) show ?thesis
    unfolding paced_def by blast
qed

theorem sleep_precedes_poll_witness:
  "19 < length (trace (snd (main (Suc 0) sample_hdr good_board all_ok (\<lambda>_. one_field))))
   \<and> trace (snd (main (Suc 0) sample_hdr good_board all_ok (\<lambda>_. one_field))) ! 19
       = Bme69x_get_data BME69X_SEQUENTIAL_MODE BME69X_OK 1
   \<and> trace (snd (main (Suc 0) sample_hdr good_board all_ok (\<lambda>_. one_field))) ! 18
       = Coines_get_millis
   \<and> trace (snd (main (Suc 0) sample_hdr good_board all_ok (\<lambda>_. one_field))) ! 17
       = Coines_delay_usec (del_period 42590)"
proof -
  let ?tr = "trace (snd (main (Suc 0) sample_hdr good_board all_ok (\<lambda>_. one_field)))"
  have a: "19 < length ?tr" by (simp add: sample_run)
  have b: "?tr ! 19 = Bme69x_get_data BME69X_SEQUENTIAL_MODE BME69X_OK 1"
    by (simp add: sample_run)
  have c: "?tr ! 16 = Bme69x_get_meas_dur BME69X_SEQUENTIAL_MODE conf 42590"
    by (simp add: sample_run)
  from sleep_precedes_poll [OF a b] c show ?thesis
    using a b by auto
qed

text \<open>
  C4. For \<^verbatim>\<open>BME69X_W_NO_NEW_DATA\<close> the function \<^verbatim>\<open>bme69x_check_rslt\<close> prints the
  message marked Warning, where every other code but \<^verbatim>\<open>BME69X_OK\<close> gets one marked
  Error. The loop does not look at the result code: a pass advances \<^verbatim>\<open>sample_count\<close>
  by \<^verbatim>\<open>n_fields\<close> whatever the code, so after a poll that returns
  \<^verbatim>\<open>BME69X_W_NO_NEW_DATA\<close> with no field \<^verbatim>\<open>sample_count\<close> is unchanged and the next
  pass is executed. Once the board connection is open, no run of \<^verbatim>\<open>main\<close> ends in
  \<^verbatim>\<open>exit\<close>, whatever the polls return.
\<close>

theorem no_new_data_warns_and_loop_goes_on:
  "bme69x_check_rslt api BME69X_W_NO_NEW_DATA =
     [Printf (''API name [%s]  Warning [%d] : No new data found'' @ crlf)
        [A_str api, A_rslt BME69X_W_NO_NEW_DATA]]
   \<and> (r \<noteq> BME69X_OK \<and> r \<noteq> BME69X_W_NO_NEW_DATA \<longrightarrow>
        take 21 (rslt_text r) = ''API name [%s]  Error '')
   \<and> fst (loop_body e s) = fst s + ucast (e_n_fields e)
   \<and> (fst s \<le> SAMPLE_COUNT \<and> e_rslt (env k) = BME69X_W_NO_NEW_DATA \<and> e_n_fields (env k) = 0
      \<longrightarrow> fst (loop_body (env k) s) = fst s
        \<and> seq_loop (Suc (Suc n)) env k s =
            seq_loop n env (Suc (Suc k)) (loop_body (env (Suc k)) (loop_body (env k) s)))
   \<and> (\<not> open_result B <s COINES_SUCCESS H \<longrightarrow> fst (main m H B L env) \<noteq> Some (Exited c))"
proof -
  have msg: "r \<noteq> BME69X_OK \<Longrightarrow> r \<noteq> BME69X_W_NO_NEW_DATA \<Longrightarrow>
      take 21 (rslt_text r) = ''API name [%s]  Error ''"
    by (cases r) simp_all
  have run: "\<not> open_result B <s COINES_SUCCESS H \<Longrightarrow> fst (main m H B L env) \<noteq> Some (Exited c)"
    by (simp add: main_def main_setup_eq split: prod.split)
  have body: "fst (loop_body e s) = fst s + ucast (e_n_fields e)" for e
    by (cases s) (simp add: loop_body_def)
  show ?thesis
    using msg run by (simp add: bme69x_check_rslt_def body)
qed

text \<open>Two passes without a field, from the start of the loop: both are executed.\<close>

theorem no_new_data_warns_and_loop_goes_on_witness:
  "BME69X_E_COM_FAIL \<noteq> BME69X_OK \<and> BME69X_E_COM_FAIL \<noteq> BME69X_W_NO_NEW_DATA
   \<and> take 21 (rslt_text BME69X_E_COM_FAIL) = ''API name [%s]  Error ''
   \<and> (1 :: u16) \<le> SAMPLE_COUNT \<and> e_rslt no_field = BME69X_W_NO_NEW_DATA \<and> e_n_fields no_field = 0
   \<and> fst (loop_body no_field (1, start_state)) = 1
   \<and> seq_loop (Suc (Suc 0)) (\<lambda>_. no_field) 0 (1, start_state) =
       loop_body no_field (loop_body no_field (1, start_state))
   \<and> \<not> open_result good_board <s COINES_SUCCESS sample_hdr
   \<and> fst (main (Suc (Suc 0)) sample_hdr good_board all_ok (\<lambda>_. no_field)) = None"
proof -
  have open_ok: "\<not> open_result good_board <s COINES_SUCCESS sample_hdr"
    by (simp add: good_board_def sample_hdr_def)
  have still: "fst (main (Suc (Suc 0)) sample_hdr good_board all_ok (\<lambda>_. no_field)) = None"
    by (simp add: main_def main_setup_eq open_ok loop_body_def no_field_def SAMPLE_COUNT_def
        split: prod.split)
  show ?thesis
    using open_ok still
      no_new_data_warns_and_loop_goes_on [of "''bme69x_get_data''" BME69X_E_COM_FAIL no_field
        "(1, start_state)" "\<lambda>_. no_field" 0 0 good_board sample_hdr "Suc (Suc 0)" all_ok 0]
    by (simp add: SAMPLE_COUNT_def no_field_def)
qed

section \<open>Properties of the library as specified\<close>

text \<open>
  C2. With a handle that is not \<^verbatim>\<open>NULL\<close>, \<^verbatim>\<open>bme69x_set_heatr_conf\<close> succeeds for
  every heater profile of 1 to 10 steps, and fails with \<^verbatim>\<open>BME69X_E_INVALID_LENGTH\<close>
  for a profile of 0 steps or of more than 10.
\<close>

theorem set_heatr_conf_length_check:
  "(1 \<le> profile_len hc \<and> profile_len hc \<le> 10 \<longrightarrow>
      bme69x_set_heatr_conf mode hc (Some d) = BME69X_OK)
   \<and> (profile_len hc = 0 \<or> 10 < profile_len hc \<longrightarrow>
      bme69x_set_heatr_conf mode hc (Some d) = BME69X_E_INVALID_LENGTH)"
proof -
  have "profile_len hc = 0 \<Longrightarrow> \<not> 1 \<le> profile_len hc"
    by simp
  then show ?thesis
    by (auto simp: bme69x_set_heatr_conf_def)
qed

text \<open>The profile of \<^verbatim>\<open>main\<close> has 10 steps; cut to 0 or grown to 11 it is rejected.\<close>

theorem set_heatr_conf_length_check_witness:
  "1 \<le> profile_len heatr_conf \<and> profile_len heatr_conf \<le> 10
   \<and> bme69x_set_heatr_conf BME69X_SEQUENTIAL_MODE heatr_conf (Some unassigned_dev) = BME69X_OK
   \<and> profile_len (heatr_conf\<lparr>profile_len := 0\<rparr>) = 0
   \<and> bme69x_set_heatr_conf BME69X_SEQUENTIAL_MODE (heatr_conf\<lparr>profile_len := 0\<rparr>)
        (Some unassigned_dev) = BME69X_E_INVALID_LENGTH
   \<and> 10 < profile_len (heatr_conf\<lparr>profile_len := 11\<rparr>)
   \<and> bme69x_set_heatr_conf BME69X_SEQUENTIAL_MODE (heatr_conf\<lparr>profile_len := 11\<rparr>)
        (Some unassigned_dev) = BME69X_E_INVALID_LENGTH"
  using set_heatr_conf_length_check [of heatr_conf BME69X_SEQUENTIAL_MODE unassigned_dev]
    set_heatr_conf_length_check [of "heatr_conf\<lparr>profile_len := 0\<rparr>" BME69X_SEQUENTIAL_MODE
      unassigned_dev]
    set_heatr_conf_length_check [of "heatr_conf\<lparr>profile_len := 11\<rparr>" BME69X_SEQUENTIAL_MODE
      unassigned_dev]
  by (simp add: heatr_conf_def)

lemma os_to_meas_cycles_le: "os_to_meas_cycles a \<le> 16"
  by (cases a) simp_all

lemma os_to_meas_cycles_mono: "os_level a < os_level b \<Longrightarrow> os_to_meas_cycles a < os_to_meas_cycles b"
  by (cases a; cases b) simp_all

lemma unat_meas_dur:
  assumes "fits_u32 T mode"
  shows "unat (bme69x_get_meas_dur T mode c) =
     (os_to_meas_cycles (os_temp c) + os_to_meas_cycles (os_pres c)
      + os_to_meas_cycles (os_hum c)) * unat (cycle_us T) + unat (overhead_us T mode)"
proof -
  let ?n = "os_to_meas_cycles (os_temp c) + os_to_meas_cycles (os_pres c)
      + os_to_meas_cycles (os_hum c)"
  have n: "?n \<le> 48"
    using os_to_meas_cycles_le [of "os_temp c"] os_to_meas_cycles_le [of "os_pres c"]
      os_to_meas_cycles_le [of "os_hum c"] by linarith
  have le: "?n * unat (cycle_us T) \<le> 48 * unat (cycle_us T)"
    by (rule mult_le_mono1 [OF n])
  have "48 * unat (cycle_us T) + unat (overhead_us T mode) < 2 ^ 32"
    using assms by (simp add: fits_u32_def)
  with le have bound: "?n * unat (cycle_us T) + unat (overhead_us T mode) < 2 ^ 32"
    by linarith
  have "bme69x_get_meas_dur T mode c =
      of_nat (?n * unat (cycle_us T) + unat (overhead_us T mode))"
    by (simp add: bme69x_get_meas_dur_def)
  then have "unat (bme69x_get_meas_dur T mode c) =
      (?n * unat (cycle_us T) + unat (overhead_us T mode)) mod 2 ^ 32"
    by (simp only: unat_of_nat) simp
  with bound show ?thesis by simp
qed

text \<open>
  C7. With a positive cycle length, and constants for which no duration wraps around,
  \<^verbatim>\<open>bme69x_get_meas_dur\<close> is strictly increasing in the oversampling level of the
  temperature, of the pressure and of the humidity, the other settings held fixed; and
  changing the IIR filter setting does not change the duration.
\<close>

theorem meas_dur_monotone:
  assumes "fits_u32 T mode" and "0 < cycle_us T" and "os_level a < os_level b"
  shows "bme69x_get_meas_dur T mode (c\<lparr>os_temp := a\<rparr>) < bme69x_get_meas_dur T mode (c\<lparr>os_temp := b\<rparr>)
    \<and> bme69x_get_meas_dur T mode (c\<lparr>os_pres := a\<rparr>) < bme69x_get_meas_dur T mode (c\<lparr>os_pres := b\<rparr>)
    \<and> bme69x_get_meas_dur T mode (c\<lparr>os_hum := a\<rparr>) < bme69x_get_meas_dur T mode (c\<lparr>os_hum := b\<rparr>)
    \<and> bme69x_get_meas_dur T mode (c\<lparr>filter' := f\<rparr>) = bme69x_get_meas_dur T mode c"
proof -
  have pos: "0 < unat (cycle_us T)"
    using assms(2) by (simp add: unat_gt_0)
  have lt: "os_to_meas_cycles a < os_to_meas_cycles b"
    by (rule os_to_meas_cycles_mono [OF assms(3)])
  have step: "(os_to_meas_cycles a + x) * unat (cycle_us T) < (os_to_meas_cycles b + x) * unat (cycle_us T)" for x
    using lt pos by simp
  have t: "bme69x_get_meas_dur T mode (c\<lparr>os_temp := a\<rparr>) < bme69x_get_meas_dur T mode (c\<lparr>os_temp := b\<rparr>)"
    using step [of "os_to_meas_cycles (os_pres c) + os_to_meas_cycles (os_hum c)"]
    by (simp add: word_less_nat_alt unat_meas_dur [OF assms(1)] add.assoc)
  have p: "bme69x_get_meas_dur T mode (c\<lparr>os_pres := a\<rparr>) < bme69x_get_meas_dur T mode (c\<lparr>os_pres := b\<rparr>)"
    using step [of "os_to_meas_cycles (os_temp c) + os_to_meas_cycles (os_hum c)"]
    by (simp add: word_less_nat_alt unat_meas_dur [OF assms(1)] add.assoc add.left_commute)
  have h: "bme69x_get_meas_dur T mode (c\<lparr>os_hum := a\<rparr>) < bme69x_get_meas_dur T mode (c\<lparr>os_hum := b\<rparr>)"
    using step [of "os_to_meas_cycles (os_temp c) + os_to_meas_cycles (os_pres c)"]
    by (simp add: word_less_nat_alt unat_meas_dur [OF assms(1)] add.commute add.left_commute)
  have f: "bme69x_get_meas_dur T mode (c\<lparr>filter' := f\<rparr>) = bme69x_get_meas_dur T mode c"
    by (simp add: bme69x_get_meas_dur_def)
  from t p h f show ?thesis by simp
qed

text \<open>
  With 1963 microseconds per cycle and an overhead of 5293, the configuration of
  \<^verbatim>\<open>main\<close> takes 42590 microseconds; one level more on the temperature, 46516.
\<close>

theorem meas_dur_monotone_witness:
  "fits_u32 sample_timing BME69X_SEQUENTIAL_MODE \<and> 0 < cycle_us sample_timing
   \<and> os_level BME69X_OS_2X < os_level BME69X_OS_4X
   \<and> bme69x_get_meas_dur sample_timing BME69X_SEQUENTIAL_MODE (conf\<lparr>os_temp := BME69X_OS_2X\<rparr>)
       < bme69x_get_meas_dur sample_timing BME69X_SEQUENTIAL_MODE (conf\<lparr>os_temp := BME69X_OS_4X\<rparr>)
   \<and> bme69x_get_meas_dur sample_timing BME69X_SEQUENTIAL_MODE (conf\<lparr>os_pres := BME69X_OS_2X\<rparr>)
       < bme69x_get_meas_dur sample_timing BME69X_SEQUENTIAL_MODE (conf\<lparr>os_pres := BME69X_OS_4X\<rparr>)
   \<and> bme69x_get_meas_dur sample_timing BME69X_SEQUENTIAL_MODE (conf\<lparr>os_hum := BME69X_OS_2X\<rparr>)
       < bme69x_get_meas_dur sample_timing BME69X_SEQUENTIAL_MODE (conf\<lparr>os_hum := BME69X_OS_4X\<rparr>)
   \<and> bme69x_get_meas_dur sample_timing BME69X_SEQUENTIAL_MODE
        (conf\<lparr>filter' := BME69X_FILTER_SIZE_3\<rparr>)
       = bme69x_get_meas_dur sample_timing BME69X_SEQUENTIAL_MODE conf
   \<and> bme69x_get_meas_dur sample_timing BME69X_SEQUENTIAL_MODE conf = 42590
   \<and> bme69x_get_meas_dur sample_timing BME69X_SEQUENTIAL_MODE (conf\<lparr>os_temp := BME69X_OS_4X\<rparr>)
       = 46516"
proof -
  have h1: "fits_u32 sample_timing BME69X_SEQUENTIAL_MODE"
    by (simp add: fits_u32_def sample_timing_def)
  have h2: "0 < cycle_us sample_timing"
    by (simp add: sample_timing_def)
  have h3: "os_level BME69X_OS_2X < os_level BME69X_OS_4X"
    by simp
  have v: "bme69x_get_meas_dur sample_timing BME69X_SEQUENTIAL_MODE conf = 42590"
    "bme69x_get_meas_dur sample_timing BME69X_SEQUENTIAL_MODE (conf\<lparr>os_temp := BME69X_OS_4X\<rparr>)
       = 46516"
    by (simp_all add: bme69x_get_meas_dur_def sample_timing_def conf_def)
  from meas_dur_monotone [OF h1 h2 h3, of conf BME69X_FILTER_SIZE_3] h1 h2 h3 v
  show ?thesis by simp
qed

end
